theory Spec2Isabelle
  imports Complex_Main "HOL-Library.Sublist" "HOL-Library.AList"
begin

section \<open>Text\<close>

text \<open>
  Python text is modelled by \<^typ>\<open>string\<close>: a list of 8-bit characters, read as the code
  points U+0000 to U+00FF. \<open>isspace\<close> is Python's \<open>str.isspace\<close> on that range: the six
  ASCII whitespace characters, the four separators 0x1C to 0x1F, NEL (0x85) and the
  no-break space (0xA0).
\<close>

definition isspace :: "char \<Rightarrow> bool" where
  "isspace c = (c \<in> set [CHR 0x09, CHR 0x0A, CHR 0x0B, CHR 0x0C, CHR 0x0D,
     CHR 0x1C, CHR 0x1D, CHR 0x1E, CHR 0x1F, CHR 0x20, CHR 0x85, CHR 0xA0])"

text \<open>\<open>s.strip()\<close> and \<open>s.strip(chars)\<close>: drop from both ends while the character is
  whitespace, respectively a member of \<open>chars\<close>.\<close>

definition strip_where :: "(char \<Rightarrow> bool) \<Rightarrow> string \<Rightarrow> string" where
  "strip_where p s = rev (dropWhile p (rev (dropWhile p s)))"

definition py_strip :: "string \<Rightarrow> string" where
  "py_strip s = strip_where isspace s"

definition py_strip_chars :: "string \<Rightarrow> string \<Rightarrow> string" where
  "py_strip_chars chars s = strip_where (\<lambda>c. c \<in> set chars) s"

text \<open>\<open>s.replace(old, new, 1)\<close>: the leftmost occurrence of \<open>old\<close> is replaced, and the
  text is unchanged when there is none.\<close>

fun py_replace_first :: "string \<Rightarrow> string \<Rightarrow> string \<Rightarrow> string" where
  "py_replace_first old new [] = (if old = [] then new else [])"
| "py_replace_first old new (c # cs) =
     (if prefix old (c # cs) then new @ drop (length old) (c # cs)
      else c # py_replace_first old new cs)"

section \<open>Values and errors\<close>

text \<open>
  The objects that \<open>json.loads\<close> returns: \<open>None\<close>, \<open>bool\<close>, \<open>int\<close>, \<open>float\<close>, \<open>str\<close>, \<open>list\<close>
  and \<open>dict\<close>. An \<open>int\<close> is unbounded. A \<open>float\<close> is a double: the real number it holds, or
  one of \<open>nan\<close>, \<open>inf\<close> and \<open>-inf\<close>; the sign of a zero is not kept. A \<open>dict\<close> is an
  association list in insertion order, read with \<^const>\<open>map_of\<close>.
\<close>

datatype pyfloat = Finite real | NaN | Infinity | NegInfinity

datatype json =
    JNull
  | JBool bool
  | JInt int
  | JFloat pyfloat
  | JStr string
  | JArr "json list"
  | JObj "(string \<times> json) list"

subsection \<open>The nearest double\<close>

text \<open>
  Python turns an integer, and a decimal literal, into the double nearest to it, a tie
  going to the even significand. \<open>nearest_double n d\<close> is that double for the positive
  fraction \<open>n / d\<close>, as a significand and a power of two (a significand of at most
  \<open>2 ^ 53\<close> and a power of at least -1074, which covers the subnormal numbers), or nothing
  when the fraction is beyond the largest double. \<open>bit_length\<close> is the number of binary
  digits of a positive integer, \<open>round_half_even num den\<close> the integer nearest to
  \<open>num / den\<close>, and \<open>at_least_pow2 n d e\<close> says that \<open>n / d\<close> is at least \<open>2 ^ e\<close>.
\<close>

function bit_length :: "int \<Rightarrow> int" where
  "bit_length n = (if n \<le> 0 then 0 else 1 + bit_length (n div 2))"
  by pat_completeness auto
termination
  by (relation "measure nat") auto

declare bit_length.simps [simp del]

definition round_half_even :: "int \<Rightarrow> int \<Rightarrow> int" where
  "round_half_even num den =
     (let q = num div den; r = num mod den
      in if den < 2 * r \<or> (2 * r = den \<and> odd q) then q + 1 else q)"

definition at_least_pow2 :: "int \<Rightarrow> int \<Rightarrow> int \<Rightarrow> bool" where
  "at_least_pow2 n d e = (if 0 \<le> e then d * 2 ^ nat e \<le> n else d \<le> n * 2 ^ nat (- e))"

definition nearest_double :: "int \<Rightarrow> int \<Rightarrow> (int \<times> int) option" where
  "nearest_double n d =
     (if n = 0 then Some (0, 0)
      else
        let e0 = bit_length n - bit_length d;
            e = (if at_least_pow2 n d e0 then e0 else e0 - 1);
            k = max (e - 52) (- 1074);
            m = (if 0 \<le> k then round_half_even n (d * 2 ^ nat k)
                 else round_half_even (n * 2 ^ nat (- k)) d)
        in if 0 \<le> k \<and> 2 ^ 1024 \<le> m * 2 ^ nat k then None else Some (m, k))"

definition double :: "bool \<Rightarrow> int \<Rightarrow> int \<Rightarrow> pyfloat" where
  "double neg m k =
     (let x = (if 0 \<le> k then of_int (m * 2 ^ nat k) else of_int m / 2 ^ nat (- k))
      in Finite (if neg then - x else x))"

text \<open>\<open>float(i)\<close> of an integer, which raises \<open>OverflowError\<close> beyond the largest double.\<close>

definition float_of_int :: "int \<Rightarrow> pyfloat option" where
  "float_of_int i =
     (case nearest_double \<bar>i\<bar> 1 of
        None \<Rightarrow> None
      | Some (m, k) \<Rightarrow> Some (double (i < 0) m k))"

text \<open>The float of a decimal literal with the digits \<open>m\<close>, of which \<open>fd\<close> stand after the
  point, and the exponent \<open>e\<close>: infinite beyond the largest double.\<close>

definition float_of_decimal :: "bool \<Rightarrow> int \<Rightarrow> nat \<Rightarrow> bool \<Rightarrow> nat \<Rightarrow> pyfloat" where
  "float_of_decimal neg m fd eneg e =
     (case (if eneg then nearest_double m (10 ^ (fd + e))
            else nearest_double (m * 10 ^ e) (10 ^ fd)) of
        None \<Rightarrow> (if neg then NegInfinity else Infinity)
      | Some (m', k) \<Rightarrow> double neg m' k)"

subsection \<open>Errors and libraries\<close>

text \<open>Every way the request can raise. \<open>HTTPException\<close> carries the status code and the
  detail; any other exception leaves the endpoint unhandled.\<close>

datatype error =
    HTTPException nat string
  | JSONDecodeError
  | TypeError
  | AttributeError
  | KeyError
  | IndexError
  | ValidationError
  | TransportError

definition and_then :: "error + 'a \<Rightarrow> ('a \<Rightarrow> error + 'b) \<Rightarrow> error + 'b" where
  "and_then r f = (case r of Inl e \<Rightarrow> Inl e | Inr x \<Rightarrow> f x)"

fun collect :: "('a \<Rightarrow> error + 'b) \<Rightarrow> 'a list \<Rightarrow> error + 'b list" where
  "collect f [] = Inr []"
| "collect f (x # xs) =
     (case f x of
        Inl e \<Rightarrow> Inl e
      | Inr y \<Rightarrow> (case collect f xs of Inl e \<Rightarrow> Inl e | Inr ys \<Rightarrow> Inr (y # ys)))"

text \<open>
  What the code takes from its libraries. \<open>json_loads\<close> is \<open>json.loads\<close> on text, with
  \<open>None\<close> for \<open>JSONDecodeError\<close>. The pydantic models accept a value of the declared type
  as it is, and an \<open>int\<close> for a \<open>float\<close> field, as the float of that integer. What pydantic
  makes of any other value (a coercion in lax mode, or a rejection) depends on its
  version and is left to \<open>lax_float\<close> and \<open>lax_str\<close>, which are only ever applied to a value
  that is not a number, respectively not a string.
\<close>

record library =
  json_loads :: "string \<Rightarrow> json option"
  lax_float :: "json \<Rightarrow> pyfloat option"
  lax_str :: "json \<Rightarrow> string option"

section \<open>Data models\<close>

record LogAnalysisRequest =
  logs :: string
  environment :: "string option"
  question :: "string option"

record Detection =
  title :: string
  description :: string
  severity :: string
  indicators :: "string list"

record LogAnalysisResponse =
  overall_risk_score :: pyfloat
  summary :: string
  detections :: "Detection list"
  recommended_actions :: "string list"
  queries_to_run :: "string list"

text \<open>Field validation of the two response models: \<open>str\<close>, \<open>float\<close> and \<open>List[str]\<close>. A
  \<open>float\<close> field takes the float of an integer, and refuses an integer that has none.\<close>

fun validate_str :: "library \<Rightarrow> json \<Rightarrow> error + string" where
  "validate_str lib (JStr s) = Inr s"
| "validate_str lib j = (case lax_str lib j of None \<Rightarrow> Inl ValidationError | Some s \<Rightarrow> Inr s)"

fun validate_float :: "library \<Rightarrow> json \<Rightarrow> error + pyfloat" where
  "validate_float lib (JFloat x) = Inr x"
| "validate_float lib (JInt i) =
     (case float_of_int i of None \<Rightarrow> Inl ValidationError | Some x \<Rightarrow> Inr x)"
| "validate_float lib j = (case lax_float lib j of None \<Rightarrow> Inl ValidationError | Some x \<Rightarrow> Inr x)"

fun validate_str_list :: "library \<Rightarrow> json \<Rightarrow> error + string list" where
  "validate_str_list lib (JArr xs) = collect (validate_str lib) xs"
| "validate_str_list lib j = Inl ValidationError"

text \<open>\<open>obj.get(key, default)\<close>: only a \<open>dict\<close> has the method.\<close>

definition dict_get :: "(string \<times> json) list \<Rightarrow> string \<Rightarrow> json \<Rightarrow> json" where
  "dict_get kv k dflt = (case map_of kv k of None \<Rightarrow> dflt | Some v \<Rightarrow> v)"

fun py_get :: "json \<Rightarrow> string \<Rightarrow> json \<Rightarrow> error + json" where
  "py_get (JObj kv) k dflt = Inr (dict_get kv k dflt)"
| "py_get j k dflt = Inl AttributeError"

text \<open>\<open>for d in obj\<close>: a list yields its items, a string its characters, a \<open>dict\<close> its
  keys; nothing else is iterable.\<close>

fun py_iter :: "json \<Rightarrow> error + json list" where
  "py_iter (JArr xs) = Inr xs"
| "py_iter (JStr s) = Inr (map (\<lambda>c. JStr [c]) s)"
| "py_iter (JObj kv) = Inr (map (\<lambda>(k, v). JStr k) kv)"
| "py_iter j = Inl TypeError"

text \<open>The pydantic constructors: every field is validated, and one that fails makes the
  construction fail.\<close>

definition Detection_init :: "library \<Rightarrow> json \<Rightarrow> json \<Rightarrow> json \<Rightarrow> json \<Rightarrow> error + Detection" where
  "Detection_init lib t de sv ind =
     and_then (validate_str lib t) (\<lambda>t'.
     and_then (validate_str lib de) (\<lambda>de'.
     and_then (validate_str lib sv) (\<lambda>sv'.
     and_then (validate_str_list lib ind) (\<lambda>ind'.
       Inr \<lparr>title = t', description = de', severity = sv', indicators = ind'\<rparr>))))"

definition LogAnalysisResponse_init ::
  "library \<Rightarrow> json \<Rightarrow> json \<Rightarrow> Detection list \<Rightarrow> json \<Rightarrow> json \<Rightarrow> error + LogAnalysisResponse" where
  "LogAnalysisResponse_init lib sc su ds ra qs =
     and_then (validate_float lib sc) (\<lambda>sc'.
     and_then (validate_str lib su) (\<lambda>su'.
     and_then (validate_str_list lib ra) (\<lambda>ra'.
     and_then (validate_str_list lib qs) (\<lambda>qs'.
       Inr \<lparr>overall_risk_score = sc', summary = su', detections = ds,
            recommended_actions = ra', queries_to_run = qs'\<rparr>))))"

section \<open>Configuration and the outbound call\<close>

text \<open>\<open>os.getenv\<close> gives \<open>None\<close> for a variable that is not set.\<close>

record config =
  AGI_API_KEY :: "string option"
  AGI_BASE_URL :: string

record message =
  role :: string
  content :: string

record chat_payload =
  model :: string
  messages :: "message list"
  temperature :: real

record http_request =
  url :: string
  headers :: "(string \<times> string) list"
  body :: chat_payload
  timeout :: nat

text \<open>What \<open>client.post\<close> comes back with: a response (status code and body text), or an
  exception of the transport (no connection, the 60 seconds elapsed).\<close>

datatype http_outcome = Transport_failure | Reply nat string

text \<open>The lines that the function prints.\<close>

datatype print_line =
    Print string
  | Print_status nat
  | Print_body string
  | Print_payload chat_payload

text \<open>The effects of a request: the calls that left for the network, and the console.\<close>

record world =
  sent :: "http_request list"
  console :: "print_line list"

text \<open>\<open>not AGI_API_KEY\<close>: \<open>None\<close> and the empty string are both falsy.\<close>

definition falsy :: "string option \<Rightarrow> bool" where
  "falsy v = (case v of None \<Rightarrow> True | Some s \<Rightarrow> s = [])"

text \<open>The key as the f-string of the \<open>Authorization\<close> header formats it.\<close>

definition bearer :: "string option \<Rightarrow> string" where
  "bearer v = (case v of None \<Rightarrow> ''None'' | Some s \<Rightarrow> s)"

text \<open>\<open>v or dflt\<close> on an optional string.\<close>

definition py_or :: "string option \<Rightarrow> string \<Rightarrow> string" where
  "py_or v dflt = (case v of None \<Rightarrow> dflt | Some s \<Rightarrow> if s = [] then dflt else s)"

text \<open>\<open>raise_for_status\<close> of httpx returns for a 2xx status and raises for any other.\<close>

definition is_success :: "nat \<Rightarrow> bool" where
  "is_success st = (200 \<le> st \<and> st \<le> 299)"

text \<open>Subscripts: \<open>obj[key]\<close> with a string key and \<open>obj[0]\<close>.\<close>

fun getitem_key :: "json \<Rightarrow> string \<Rightarrow> error + json" where
  "getitem_key (JObj kv) k = (case map_of kv k of None \<Rightarrow> Inl KeyError | Some v \<Rightarrow> Inr v)"
| "getitem_key j k = Inl TypeError"

fun getitem_0 :: "json \<Rightarrow> error + json" where
  "getitem_0 (JArr xs) = (case xs of [] \<Rightarrow> Inl IndexError | x # _ \<Rightarrow> Inr x)"
| "getitem_0 (JStr s) = (case s of [] \<Rightarrow> Inl IndexError | c # _ \<Rightarrow> Inr (JStr [c]))"
| "getitem_0 (JObj kv) = Inl KeyError"
| "getitem_0 j = Inl TypeError"

text \<open>\<open>data["choices"][0]["message"]["content"]\<close>\<close>

definition reply_content :: "json \<Rightarrow> error + json" where
  "reply_content data =
     and_then (getitem_key data ''choices'') (\<lambda>cs.
     and_then (getitem_0 cs) (\<lambda>c.
     and_then (getitem_key c ''message'') (\<lambda>m.
       getitem_key m ''content'')))"

definition missing_key_detail :: string where
  "missing_key_detail = ''AGI_API_KEY is not configured on the server. Set it in backend/.env''"

definition make_request :: "config \<Rightarrow> string \<Rightarrow> string \<Rightarrow> string \<Rightarrow> http_request" where
  "make_request cfg key system_prompt user_prompt =
     \<lparr>url = AGI_BASE_URL cfg @ ''/v1/chat/completions'',
      headers = [(''Authorization'', ''Bearer '' @ key),
                 (''Content-Type'', ''application/json'')],
      body = \<lparr>model = ''agi-latest'',
               messages = [\<lparr>role = ''system'', content = system_prompt\<rparr>,
                           \<lparr>role = ''user'', content = user_prompt\<rparr>],
               temperature = 0.2\<rparr>,
      timeout = 60\<rparr>"

definition debug_lines :: "nat \<Rightarrow> string \<Rightarrow> chat_payload \<Rightarrow> print_line list" where
  "debug_lines st text payload =
     [Print ''=== AGI API DEBUG ==='', Print_status st, Print_body text,
      Print_payload payload, Print ''=====================''  ]"

definition call_agi_agent ::
  "config \<Rightarrow> library \<Rightarrow> (http_request \<Rightarrow> http_outcome) \<Rightarrow> string \<Rightarrow> string \<Rightarrow> world
     \<Rightarrow> (error + json) \<times> world" where
  "call_agi_agent cfg lib post system_prompt user_prompt w =
     (if falsy (AGI_API_KEY cfg) then (Inl (HTTPException 500 missing_key_detail), w)
      else
        let rq = make_request cfg (bearer (AGI_API_KEY cfg)) system_prompt user_prompt;
            w1 = w\<lparr>sent := sent w @ [rq]\<rparr>
        in case post rq of
             Transport_failure \<Rightarrow> (Inl TransportError, w1)
           | Reply st text \<Rightarrow>
               if \<not> is_success st then
                 (Inl (HTTPException st (''AGI API error: '' @ text)),
                  w1\<lparr>console := console w1 @ debug_lines st text (body rq)\<rparr>)
               else
                 (case json_loads lib text of
                    None \<Rightarrow> (Inl JSONDecodeError, w1)
                  | Some data \<Rightarrow> (reply_content data, w1)))"

section \<open>The endpoint\<close>

text \<open>The system prompt has one character beyond U+00FF, the en dash of its summary
  line; it stands here as the three bytes of its UTF-8 encoding. No statement depends on
  the text of the prompt.\<close>

definition en_dash :: string where
  "en_dash = [CHR 0xE2, CHR 0x80, CHR 0x93]"

definition system_prompt :: string where
  \<open>system_prompt =
     ''You are a senior security analyst and threat hunter assisting a SOC team. '' @
     ''Given raw security logs, your job is to:\<newline>'' @
     ''- detect suspicious or malicious activity and group it into '' @ [CHR 0x27] @
       ''detections'' @ [CHR 0x27, CHR 0x0A] @
     ''- assign each detection a severity: Low / Medium / High / Critical\<newline>'' @
     ''- compute an overall risk score from 0 to 100 for the entire log batch\<newline>'' @
     ''- describe the situation in a concise summary (3'' @ en_dash @ ''5 sentences)\<newline>'' @
     ''- propose concrete recommended_actions for the security team\<newline>'' @
     ''- output follow-up queries_to_run in a SIEM (SPL, KQL, SQL-like).\<newline>\<newline>'' @
     ''Return ONLY valid JSON with this exact schema:\<newline>'' @
     ''{\<newline>'' @
     ''  "overall_risk_score": float,\<newline>'' @
     ''  "summary": str,\<newline>'' @
     ''  "detections": [\<newline>'' @
     ''    {"title": str, "description": str, "severity": str, "indicators": [str, ...]},\<newline>'' @
     ''  ],\<newline>'' @
     ''  "recommended_actions": [str, ...],\<newline>'' @
     ''  "queries_to_run": [str, ...]\<newline>'' @
     ''}''\<close>

definition user_prompt :: "LogAnalysisRequest \<Rightarrow> string" where
  "user_prompt req =
     ''\<newline>    ENVIRONMENT:\<newline>    '' @ py_or (environment req) ''Not specified'' @
     ''\<newline>\<newline>    ANALYST QUESTION / FOCUS:\<newline>    '' @
       py_or (question req) ''General threat hunting and incident triage.'' @
     ''\<newline>\<newline>    LOGS:\<newline>    '' @ logs req @ ''\<newline>    ''"

text \<open>The fallback transform of the \<open>except\<close> branch.\<close>

definition cleaned :: "string \<Rightarrow> string" where
  "cleaned raw_response =
     py_strip (py_replace_first ''json'' '''' (py_strip_chars ''`'' (py_strip raw_response)))"

text \<open>The \<open>try\<close> statement. \<open>json.loads\<close> raises \<open>TypeError\<close>, which the \<open>except\<close> clause does
  not catch, when its argument is not text.\<close>

definition parse_response :: "library \<Rightarrow> json \<Rightarrow> error + json" where
  "parse_response lib raw_response =
     (case raw_response of
        JStr s \<Rightarrow>
          (case json_loads lib s of
             Some result \<Rightarrow> Inr result
           | None \<Rightarrow>
               (case json_loads lib (cleaned s) of
                  Some result \<Rightarrow> Inr result
                | None \<Rightarrow> Inl JSONDecodeError))
      | _ \<Rightarrow> Inl TypeError)"

text \<open>One item of the list comprehension, in the order the source evaluates it.\<close>

definition make_detection :: "library \<Rightarrow> json \<Rightarrow> error + Detection" where
  "make_detection lib d =
     and_then (py_get d ''title'' (JStr '''')) (\<lambda>t.
     and_then (py_get d ''description'' (JStr '''')) (\<lambda>de.
     and_then (py_get d ''severity'' (JStr ''Medium'')) (\<lambda>sv.
     and_then (py_get d ''indicators'' (JArr [])) (\<lambda>ind.
       Detection_init lib t de sv ind))))"

definition build_response :: "library \<Rightarrow> json \<Rightarrow> error + LogAnalysisResponse" where
  "build_response lib result =
     and_then (py_get result ''detections'' (JArr [])) (\<lambda>ds.
     and_then (py_iter ds) (\<lambda>items.
     and_then (collect (make_detection lib) items) (\<lambda>dets.
     and_then (py_get result ''overall_risk_score'' (JFloat (Finite 0.0))) (\<lambda>sc.
     and_then (py_get result ''summary'' (JStr '''')) (\<lambda>su.
     and_then (py_get result ''recommended_actions'' (JArr [])) (\<lambda>ra.
     and_then (py_get result ''queries_to_run'' (JArr [])) (\<lambda>qs.
       LogAnalysisResponse_init lib sc su dets ra qs)))))))"

definition analyze_logs ::
  "config \<Rightarrow> library \<Rightarrow> (http_request \<Rightarrow> http_outcome) \<Rightarrow> LogAnalysisRequest \<Rightarrow> world
     \<Rightarrow> (error + LogAnalysisResponse) \<times> world" where
  "analyze_logs cfg lib post req w =
     (case call_agi_agent cfg lib post system_prompt (user_prompt req) w of
        (Inl e, w') \<Rightarrow> (Inl e, w')
      | (Inr raw_response, w') \<Rightarrow>
          (and_then (parse_response lib raw_response) (build_response lib), w'))"

text \<open>The status the caller sees: that of an \<open>HTTPException\<close>; 500 for an exception that
  nothing handles; 200 with the response model.\<close>

fun status_code :: "error + LogAnalysisResponse \<Rightarrow> nat" where
  "status_code (Inl (HTTPException st detail)) = st"
| "status_code (Inl e) = 500"
| "status_code (Inr r) = 200"

section \<open>A decoder for JSON text\<close>

text \<open>
  An instance of \<open>json_loads\<close>, for the worked examples: the statements about the program
  are made for every \<open>json_loads\<close>, and none assumes this one. It reads the language that
  \<open>json.loads\<close> reads: the JSON grammar with the literals \<open>NaN\<close>, \<open>Infinity\<close> and
  \<open>-Infinity\<close>, whitespace (space, tab, line feed, carriage return) between tokens only,
  no control character inside a string, the last of two equal keys winning at the place
  of the first, an integer literal as an \<open>int\<close> and a literal with a fraction or an
  exponent as the nearest double. It gives no value to an integer literal of more than
  4300 digits, which \<open>int\<close> refuses to convert, nor to a four-digit escape above U+00FF,
  whose character \<^typ>\<open>string\<close> cannot hold; the recursion limit of the interpreter is
  not modelled. The text is first cut into tokens, one character at a time, then the
  tokens are read by recursive descent.
\<close>

datatype token =
    LBrace | RBrace | LBracket | RBracket | Colon | Comma
  | TString string
  | TInt int
  | TFloat pyfloat
  | TTrue | TFalse | TNull

text \<open>The token of an integer literal of \<open>n\<close> digits, and of a literal with a fraction or an
  exponent.\<close>

definition int_token :: "bool \<Rightarrow> int \<Rightarrow> nat \<Rightarrow> token option" where
  "int_token neg m n = (if n \<le> 4300 then Some (TInt (if neg then - m else m)) else None)"

definition float_token :: "bool \<Rightarrow> int \<Rightarrow> nat \<Rightarrow> bool \<Rightarrow> nat \<Rightarrow> token option" where
  "float_token neg m fd eneg e = Some (TFloat (float_of_decimal neg m fd eneg e))"

datatype lex_state =
    Between
  | In_string string
  | In_escape string
  | In_unicode string "nat list"
  | In_literal string token
  | After_minus
  | After_zero bool
  | In_int bool int nat
  | After_point bool int
  | In_frac bool int nat
  | After_e bool int nat
  | After_exp_sign bool int nat bool
  | In_exp bool int nat bool nat

definition json_ws :: "char \<Rightarrow> bool" where
  "json_ws c = (c \<in> set [CHR 0x20, CHR 0x09, CHR 0x0A, CHR 0x0D])"

definition digit_of :: "char \<Rightarrow> nat option" where
  "digit_of c = (let n = of_char c in if (48::nat) \<le> n \<and> n \<le> 57 then Some (n - 48) else None)"

definition hex_of :: "char \<Rightarrow> nat option" where
  "hex_of c =
     (let n = of_char c in
      if (48::nat) \<le> n \<and> n \<le> 57 then Some (n - 48)
      else if 97 \<le> n \<and> n \<le> 102 then Some (n - 87)
      else if 65 \<le> n \<and> n \<le> 70 then Some (n - 55)
      else None)"

text \<open>A character seen between tokens.\<close>

definition start :: "char \<Rightarrow> (token list \<times> lex_state) option" where
  "start c =
     (if json_ws c then Some ([], Between)
      else if c = CHR ''{'' then Some ([LBrace], Between)
      else if c = CHR ''}'' then Some ([RBrace], Between)
      else if c = CHR ''['' then Some ([LBracket], Between)
      else if c = CHR '']'' then Some ([RBracket], Between)
      else if c = CHR '':'' then Some ([Colon], Between)
      else if c = CHR '','' then Some ([Comma], Between)
      else if c = CHR 0x22 then Some ([], In_string [])
      else if c = CHR ''-'' then Some ([], After_minus)
      else if c = CHR ''0'' then Some ([], After_zero False)
      else if c = CHR ''n'' then Some ([], In_literal ''ull'' TNull)
      else if c = CHR ''t'' then Some ([], In_literal ''rue'' TTrue)
      else if c = CHR ''f'' then Some ([], In_literal ''alse'' TFalse)
      else if c = CHR ''N'' then Some ([], In_literal ''aN'' (TFloat NaN))
      else if c = CHR ''I'' then Some ([], In_literal ''nfinity'' (TFloat Infinity))
      else (case digit_of c of Some d \<Rightarrow> Some ([], In_int False (int d) 1) | None \<Rightarrow> None))"

text \<open>The character after a complete number ends it and is read again between tokens.\<close>

definition end_number :: "token option \<Rightarrow> char \<Rightarrow> (token list \<times> lex_state) option" where
  "end_number tok c =
     (case tok of
        None \<Rightarrow> None
      | Some t \<Rightarrow> (case start c of None \<Rightarrow> None | Some (ts, st) \<Rightarrow> Some (t # ts, st)))"

definition is_e :: "char \<Rightarrow> bool" where
  "is_e c = (c = CHR ''e'' \<or> c = CHR ''E'')"

definition unescape :: "char \<Rightarrow> char option" where
  "unescape c =
     (if c = CHR 0x22 \<or> c = CHR 0x5C \<or> c = CHR ''/'' then Some c
      else if c = CHR ''b'' then Some (CHR 0x08)
      else if c = CHR ''f'' then Some (CHR 0x0C)
      else if c = CHR ''n'' then Some (CHR 0x0A)
      else if c = CHR ''r'' then Some (CHR 0x0D)
      else if c = CHR ''t'' then Some (CHR 0x09)
      else None)"

fun step :: "lex_state \<Rightarrow> char \<Rightarrow> (token list \<times> lex_state) option" where
  "step Between c = start c"
| "step (In_string acc) c =
     (if c = CHR 0x22 then Some ([TString acc], Between)
      else if c = CHR 0x5C then Some ([], In_escape acc)
      else if (of_char c :: nat) < 32 then None
      else Some ([], In_string (acc @ [c])))"
| "step (In_escape acc) c =
     (if c = CHR ''u'' then Some ([], In_unicode acc [])
      else (case unescape c of None \<Rightarrow> None | Some c' \<Rightarrow> Some ([], In_string (acc @ [c']))))"
| "step (In_unicode acc ds) c =
     (case hex_of c of
        None \<Rightarrow> None
      | Some d \<Rightarrow>
          if length ds < 3 then Some ([], In_unicode acc (ds @ [d]))
          else
            let code = foldl (\<lambda>n h. 16 * n + h) 0 (ds @ [d])
            in if code < 256 then Some ([], In_string (acc @ [char_of code])) else None)"
| "step (In_literal rest tok) c =
     (case rest of
        [] \<Rightarrow> None
      | x # xs \<Rightarrow>
          if c \<noteq> x then None
          else if xs = [] then Some ([tok], Between)
          else Some ([], In_literal xs tok))"
| "step After_minus c =
     (if c = CHR ''0'' then Some ([], After_zero True)
      else if c = CHR ''I'' then Some ([], In_literal ''nfinity'' (TFloat NegInfinity))
      else (case digit_of c of Some d \<Rightarrow> Some ([], In_int True (int d) 1) | None \<Rightarrow> None))"
| "step (After_zero neg) c =
     (if c = CHR ''.'' then Some ([], After_point neg 0)
      else if is_e c then Some ([], After_e neg 0 0)
      else end_number (int_token neg 0 1) c)"
| "step (In_int neg m n) c =
     (case digit_of c of
        Some d \<Rightarrow> Some ([], In_int neg (10 * m + int d) (Suc n))
      | None \<Rightarrow>
          if c = CHR ''.'' then Some ([], After_point neg m)
          else if is_e c then Some ([], After_e neg m 0)
          else end_number (int_token neg m n) c)"
| "step (After_point neg m) c =
     (case digit_of c of Some d \<Rightarrow> Some ([], In_frac neg (10 * m + int d) 1) | None \<Rightarrow> None)"
| "step (In_frac neg m fd) c =
     (case digit_of c of
        Some d \<Rightarrow> Some ([], In_frac neg (10 * m + int d) (Suc fd))
      | None \<Rightarrow>
          if is_e c then Some ([], After_e neg m fd)
          else end_number (float_token neg m fd False 0) c)"
| "step (After_e neg m fd) c =
     (if c = CHR ''+'' then Some ([], After_exp_sign neg m fd False)
      else if c = CHR ''-'' then Some ([], After_exp_sign neg m fd True)
      else (case digit_of c of Some d \<Rightarrow> Some ([], In_exp neg m fd False d) | None \<Rightarrow> None))"
| "step (After_exp_sign neg m fd eneg) c =
     (case digit_of c of Some d \<Rightarrow> Some ([], In_exp neg m fd eneg d) | None \<Rightarrow> None)"
| "step (In_exp neg m fd eneg e) c =
     (case digit_of c of
        Some d \<Rightarrow> Some ([], In_exp neg m fd eneg (10 * e + d))
      | None \<Rightarrow> end_number (float_token neg m fd eneg e) c)"

text \<open>The end of the text.\<close>

definition last_token :: "token option \<Rightarrow> token list option" where
  "last_token tok = (case tok of None \<Rightarrow> None | Some t \<Rightarrow> Some [t])"

fun finish :: "lex_state \<Rightarrow> token list option" where
  "finish Between = Some []"
| "finish (After_zero neg) = last_token (int_token neg 0 1)"
| "finish (In_int neg m n) = last_token (int_token neg m n)"
| "finish (In_frac neg m fd) = last_token (float_token neg m fd False 0)"
| "finish (In_exp neg m fd eneg e) = last_token (float_token neg m fd eneg e)"
| "finish st = None"

fun tokens :: "lex_state \<Rightarrow> string \<Rightarrow> token list option" where
  "tokens st [] = finish st"
| "tokens st (c # cs) =
     (case step st c of
        None \<Rightarrow> None
      | Some (ts, st') \<Rightarrow> (case tokens st' cs of None \<Rightarrow> None | Some us \<Rightarrow> Some (ts @ us)))"

fun parse_value :: "token list \<Rightarrow> (json \<times> token list) option"
  and parse_elements :: "json list \<Rightarrow> token list \<Rightarrow> (json \<times> token list) option"
  and parse_members :: "(string \<times> json) list \<Rightarrow> token list \<Rightarrow> (json \<times> token list) option"
where
  "parse_value (TString s # ts) = Some (JStr s, ts)"
| "parse_value (TInt i # ts) = Some (JInt i, ts)"
| "parse_value (TFloat x # ts) = Some (JFloat x, ts)"
| "parse_value (TTrue # ts) = Some (JBool True, ts)"
| "parse_value (TFalse # ts) = Some (JBool False, ts)"
| "parse_value (TNull # ts) = Some (JNull, ts)"
| "parse_value (LBracket # RBracket # ts) = Some (JArr [], ts)"
| "parse_value (LBracket # ts) = parse_elements [] ts"
| "parse_value (LBrace # RBrace # ts) = Some (JObj [], ts)"
| "parse_value (LBrace # ts) = parse_members [] ts"
| "parse_value ts = None"
| "parse_elements acc ts =
     (case parse_value ts of
        None \<Rightarrow> None
      | Some (v, rest) \<Rightarrow>
          (case rest of
             Comma # rest' \<Rightarrow>
               if length rest' < length ts then parse_elements (acc @ [v]) rest' else None
           | RBracket # rest' \<Rightarrow> Some (JArr (acc @ [v]), rest')
           | _ \<Rightarrow> None))"
| "parse_members acc (TString k # Colon # ts) =
     (case parse_value ts of
        None \<Rightarrow> None
      | Some (v, rest) \<Rightarrow>
          (case rest of
             Comma # rest' \<Rightarrow>
               if length rest' < length ts then parse_members (AList.update k v acc) rest' else None
           | RBrace # rest' \<Rightarrow> Some (JObj (AList.update k v acc), rest')
           | _ \<Rightarrow> None))"
| "parse_members acc ts = None"

definition json_decode :: "string \<Rightarrow> json option" where
  "json_decode s =
     (case tokens Between s of
        None \<Rightarrow> None
      | Some ts \<Rightarrow> (case parse_value ts of Some (v, []) \<Rightarrow> Some v | _ \<Rightarrow> None))"

text \<open>The libraries with this decoder and a pydantic that coerces nothing.\<close>

definition strict_lib :: library where
  "strict_lib = \<lparr>json_loads = json_decode, lax_float = (\<lambda>j. None), lax_str = (\<lambda>j. None)\<rparr>"

section \<open>Notions used by the statements\<close>

text \<open>A JSON object that spells out a detection: all four sub-fields, each of its declared
  type.\<close>

definition encodes :: "Detection \<Rightarrow> json \<Rightarrow> bool" where
  "encodes d j =
     (case j of
        JObj kv \<Rightarrow>
          map_of kv ''title'' = Some (JStr (title d)) \<and>
          map_of kv ''description'' = Some (JStr (description d)) \<and>
          map_of kv ''severity'' = Some (JStr (severity d)) \<and>
          map_of kv ''indicators'' = Some (JArr (map JStr (indicators d)))
      | _ \<Rightarrow> False)"

text \<open>A number of the payload that a \<open>float\<close> field holds unchanged: a float, or an integer
  whose float is that integer.\<close>

definition exact_number :: "json \<Rightarrow> pyfloat \<Rightarrow> bool" where
  "exact_number j x =
     (case j of
        JFloat y \<Rightarrow> x = y
      | JInt i \<Rightarrow> x = Finite (of_int i) \<and> float_of_int i = Some x
      | _ \<Rightarrow> False)"

text \<open>An invariant of the tokenizer: what is still expected of a literal is made of letters,
  so neither whitespace nor a backtick.\<close>

definition plain :: "char \<Rightarrow> bool" where
  "plain c = (\<not> isspace c \<and> c \<noteq> CHR ''`'')"

definition clean :: "lex_state \<Rightarrow> bool" where
  "clean st = (case st of In_literal rest tok \<Rightarrow> list_all plain rest | _ \<Rightarrow> True)"

subsection \<open>A worked request\<close>

text \<open>The scenario of the specification: a configured service, the request about failed
  logins, and an external service that answers with a fixed status and body. \<open>envelope\<close>
  is the chat-completion reply whose first choice has the given content.\<close>

definition example_config :: config where
  "example_config = \<lparr>AGI_API_KEY = Some ''secret'', AGI_BASE_URL = ''https://api.agi.tech''\<rparr>"

definition example_request :: LogAnalysisRequest where
  "example_request = \<lparr>logs = ''2024-01-01 failed login x5 from 10.0.0.5'',
     environment = Some ''AWS'', question = Some ''brute force?''\<rparr>"

definition stub_post :: "nat \<Rightarrow> string \<Rightarrow> http_request \<Rightarrow> http_outcome" where
  "stub_post st text rq = Reply st text"

definition quiet :: world where
  "quiet = \<lparr>sent = [], console = []\<rparr>"

definition escape :: "string \<Rightarrow> string" where
  "escape s = concat (map (\<lambda>c. if c = CHR 0x22 \<or> c = CHR 0x5C then [CHR 0x5C, c] else [c]) s)"

definition envelope :: "string \<Rightarrow> string" where
  \<open>envelope s = ''{"choices": [{"message": {"content": "'' @ escape s @ ''"}}]}''\<close>

definition example_payload :: string where
  \<open>example_payload =
     ''{"overall_risk_score": 72.5, "summary": "Brute force", '' @
     ''"detections": [{"title": "Failed logins", "description": "x5", '' @
     ''"severity": "High", "indicators": ["10.0.0.5"]}], '' @
     ''"recommended_actions": ["Block IP"], "queries_to_run": ["index=auth"]}''\<close>

definition example_result :: "(string \<times> json) list" where
  "example_result =
     [(''overall_risk_score'', JFloat (Finite 72.5)),
      (''summary'', JStr ''Brute force''),
      (''detections'',
       JArr [JObj [(''title'', JStr ''Failed logins''), (''description'', JStr ''x5''),
                   (''severity'', JStr ''High''), (''indicators'', JArr [JStr ''10.0.0.5''])]]),
      (''recommended_actions'', JArr [JStr ''Block IP'']),
      (''queries_to_run'', JArr [JStr ''index=auth''])]"

definition example_response :: LogAnalysisResponse where
  "example_response =
     \<lparr>overall_risk_score = Finite 72.5, summary = ''Brute force'',
      detections = [\<lparr>title = ''Failed logins'', description = ''x5'', severity = ''High'',
                     indicators = [''10.0.0.5'']\<rparr>],
      recommended_actions = [''Block IP''], queries_to_run = [''index=auth'']\<rparr>"

text \<open>The same payload with an integer score that no double holds, and what the decoder
  reads from it.\<close>

definition odd_payload :: string where
  \<open>odd_payload =
     ''{"overall_risk_score": 9007199254740993, "summary": "Brute force", '' @
     ''"detections": [{"title": "Failed logins", "description": "x5", '' @
     ''"severity": "High", "indicators": ["10.0.0.5"]}], '' @
     ''"recommended_actions": ["Block IP"], "queries_to_run": ["index=auth"]}''\<close>

definition odd_result :: "(string \<times> json) list" where
  "odd_result = AList.update ''overall_risk_score'' (JInt 9007199254740993) example_result"

definition example_doc :: string where
  \<open>example_doc = ''\<newline>{"summary": "ok"}\<newline>''\<close>

definition example_truncated :: string where
  \<open>example_truncated = ''```json {"summary": "Brute ```''\<close>

section \<open>Basic facts\<close>

lemma and_then_Inr [simp]: "and_then (Inr x) f = f x"
  by (simp add: and_then_def)

lemma and_then_Inl [simp]: "and_then (Inl e) f = Inl e"
  by (simp add: and_then_def)

lemma and_then_eq_Inr: "and_then r f = Inr y \<longleftrightarrow> (\<exists>x. r = Inr x \<and> f x = Inr y)"
  by (cases r) simp_all

lemma collect_eq_Inr: "collect f xs = Inr ys \<longleftrightarrow> list_all2 (\<lambda>x y. f x = Inr y) xs ys"
proof (induction xs arbitrary: ys)
  case Nil
  show ?case by auto
next
  case (Cons x xs)
  show ?case
  proof (cases "f x")
    case (Inl e)
    then show ?thesis by (auto simp: list_all2_Cons1)
  next
    case (Inr y)
    then show ?thesis
      using Cons.IH by (cases "collect f xs") (auto simp: list_all2_Cons1)
  qed
qed

lemma collect_map_JStr [simp]: "collect (validate_str lib) (map JStr ss) = Inr ss"
  by (induction ss) simp_all

lemma dict_get_absent [simp]: "map_of kv k = None \<Longrightarrow> dict_get kv k dflt = dflt"
  by (simp add: dict_get_def)

lemma dict_get_present [simp]: "map_of kv k = Some v \<Longrightarrow> dict_get kv k dflt = v"
  by (simp add: dict_get_def)

lemma dict_get_delete:
  "dict_get (AList.delete k kv) k' dflt = (if k' = k then dflt else dict_get kv k' dflt)"
  by (simp add: dict_get_def delete_conv')

lemma dict_get_update:
  "dict_get (AList.update k v kv) k' dflt = (if k' = k then v else dict_get kv k' dflt)"
  by (simp add: dict_get_def update_conv')

subsection \<open>Building the response\<close>

text \<open>A detection, and the response, are built exactly when every field validates, each
  field on its own; the value validated is the one of the payload, or the default.\<close>

lemma make_detection_iff:
  "make_detection lib (JObj kv) = Inr d \<longleftrightarrow>
     validate_str lib (dict_get kv ''title'' (JStr '''')) = Inr (title d) \<and>
     validate_str lib (dict_get kv ''description'' (JStr '''')) = Inr (description d) \<and>
     validate_str lib (dict_get kv ''severity'' (JStr ''Medium'')) = Inr (severity d) \<and>
     validate_str_list lib (dict_get kv ''indicators'' (JArr [])) = Inr (indicators d)"
  by (cases d) (auto simp: make_detection_def Detection_init_def and_then_eq_Inr)

lemma build_response_iff:
  "build_response lib (JObj kv) = Inr r \<longleftrightarrow>
     and_then (py_iter (dict_get kv ''detections'' (JArr []))) (collect (make_detection lib))
       = Inr (detections r) \<and>
     validate_float lib (dict_get kv ''overall_risk_score'' (JFloat (Finite 0)))
       = Inr (overall_risk_score r) \<and>
     validate_str lib (dict_get kv ''summary'' (JStr '''')) = Inr (summary r) \<and>
     validate_str_list lib (dict_get kv ''recommended_actions'' (JArr []))
       = Inr (recommended_actions r) \<and>
     validate_str_list lib (dict_get kv ''queries_to_run'' (JArr [])) = Inr (queries_to_run r)"
  by (cases r) (auto simp: build_response_def LogAnalysisResponse_init_def and_then_eq_Inr)

lemma detections_of_items:
  assumes "build_response lib (JObj kv) = Inr r"
    and "map_of kv ''detections'' = Some (JArr items)"
  shows "list_all2 (\<lambda>x y. make_detection lib x = Inr y) items (detections r)"
  using assms by (simp add: build_response_iff collect_eq_Inr)

lemma detection_of_item:
  assumes "build_response lib (JObj kv) = Inr r"
    and "map_of kv ''detections'' = Some (JArr items)"
    and "i < length items" and "items ! i = JObj d"
  shows "make_detection lib (JObj d) = Inr (detections r ! i)"
proof -
  have "list_all2 (\<lambda>x y. make_detection lib x = Inr y) items (detections r)"
    using assms(1,2) by (rule detections_of_items)
  then have "make_detection lib (items ! i) = Inr (detections r ! i)"
    using assms(3) by (rule list_all2_nthD)
  then show ?thesis by (simp add: assms(4))
qed

lemma make_detection_encodes: "encodes d j \<Longrightarrow> make_detection lib j = Inr d"
  by (cases j; cases d) (auto simp: encodes_def make_detection_def Detection_init_def)

lemma collect_encodes:
  "list_all2 encodes ds items \<Longrightarrow> collect (make_detection lib) items = Inr ds"
  unfolding collect_eq_Inr
  by (rule list_all2_conv_all_nth [THEN iffD2])
     (auto simp: list_all2_conv_all_nth make_detection_encodes)

lemma validate_exact_number: "exact_number j x \<Longrightarrow> validate_float lib j = Inr x"
  by (cases j) (auto simp: exact_number_def)

lemma build_response_exact:
  assumes "map_of kv ''overall_risk_score'' = Some sc" and "exact_number sc x"
    and "map_of kv ''summary'' = Some (JStr su)"
    and "map_of kv ''detections'' = Some (JArr items)"
    and "list_all2 encodes ds items"
    and "map_of kv ''recommended_actions'' = Some (JArr (map JStr ra))"
    and "map_of kv ''queries_to_run'' = Some (JArr (map JStr qs))"
  shows "build_response lib (JObj kv) =
    Inr \<lparr>overall_risk_score = x, summary = su, detections = ds,
         recommended_actions = ra, queries_to_run = qs\<rparr>"
  using assms
  by (simp add: build_response_def LogAnalysisResponse_init_def collect_encodes
        validate_exact_number)

subsection \<open>The float of a small integer\<close>

text \<open>An integer of magnitude at most \<open>2 ^ 53\<close> is a double, so its float is itself.\<close>

lemma bit_length_nonneg: "0 \<le> bit_length n"
  by (induction n rule: bit_length.induct) (subst bit_length.simps, simp)

lemma bit_length_pos: "0 < n \<Longrightarrow> 1 \<le> bit_length n"
  using bit_length_nonneg [of "n div 2"] by (subst bit_length.simps) simp

lemma bit_length_1: "bit_length 1 = 1"
  by (subst bit_length.simps, simp, subst bit_length.simps, simp)

lemma bit_length_lower: "0 < n \<Longrightarrow> 2 ^ nat (bit_length n - 1) \<le> n"
proof (induction n rule: bit_length.induct)
  case (1 n)
  show ?case
  proof (cases "n = 1")
    case True
    then show ?thesis by (simp add: bit_length_1)
  next
    case False
    then have h: "0 < n div 2" using "1.prems" by simp
    then have ih: "2 ^ nat (bit_length (n div 2) - 1) \<le> n div 2"
      using "1.IH" "1.prems" by simp
    have bl: "bit_length n = 1 + bit_length (n div 2)"
      using "1.prems" by (subst bit_length.simps) simp
    have "1 \<le> bit_length (n div 2)" using h by (rule bit_length_pos)
    then have "nat (bit_length n - 1) = Suc (nat (bit_length (n div 2) - 1))"
      using bl by simp
    then have "(2::int) ^ nat (bit_length n - 1) = 2 * 2 ^ nat (bit_length (n div 2) - 1)"
      by simp
    also have "\<dots> \<le> 2 * (n div 2)" using ih by simp
    also have "\<dots> \<le> n" by simp
    finally show ?thesis .
  qed
qed

lemma round_half_even_1: "round_half_even n 1 = n"
  by (simp add: round_half_even_def)

lemma float_of_small_int:
  assumes "\<bar>i\<bar> \<le> 2 ^ 53"
  shows "float_of_int i = Some (Finite (of_int i))"
proof (cases "i = 0")
  case True
  then show ?thesis by (simp add: float_of_int_def nearest_double_def double_def)
next
  case False
  define n where "n = \<bar>i\<bar>"
  define b where "b = bit_length n"
  have n: "0 < n" "n \<le> 2 ^ 53" using False assms by (simp_all add: n_def)
  have b1: "1 \<le> b" using n(1) unfolding b_def by (rule bit_length_pos)
  have low: "2 ^ nat (b - 1) \<le> n" using n(1) unfolding b_def by (rule bit_length_lower)
  have p: "(2::int) ^ nat (b - 1) \<le> 2 ^ 53" using low n(2) by (rule order_trans)
  have "nat (b - 1) \<le> 53" by (rule power_le_imp_le_exp [OF _ p]) simp
  then have b2: "b \<le> 54" by simp
  have ge: "at_least_pow2 n 1 (b - 1)"
    using b1 low by (simp add: at_least_pow2_def)
  have sign: "(if i < 0 then - (of_int n :: real) else of_int n) = of_int i"
    by (simp add: n_def)
  show ?thesis
  proof (cases "b = 54")
    case True
    then have "2 ^ 53 \<le> n" using low by simp
    then have n53: "n = 2 ^ 53" using n(2) by simp
    have nd: "nearest_double n 1 = Some (2 ^ 52, 1)"
      using ge True n(1) b_def
      by (simp add: nearest_double_def bit_length_1 Let_def n53 round_half_even_def)
    have nd': "nearest_double \<bar>i\<bar> 1 = Some (2 ^ 52, 1)" using nd by (simp add: n_def)
    have "i = 2 ^ 53 \<or> i = - (2 ^ 53)" using n53 by (auto simp: n_def abs_if split: if_splits)
    then show ?thesis
      using nd' by (auto simp: float_of_int_def double_def)
  next
    case False
    then have k: "b - 53 \<le> 0" using b2 by simp
    have small: "\<not> (2::int) ^ 1024 \<le> n" using n(2) by simp
    show ?thesis
    proof (cases "b = 53")
      case True
      have nd: "nearest_double n 1 = Some (n, 0)"
        using ge True n(1) b_def small
        by (simp add: nearest_double_def bit_length_1 Let_def round_half_even_1)
      show ?thesis
        using nd sign by (simp add: float_of_int_def double_def n_def [symmetric])
    next
      case False
      then have neg: "b - 53 < 0" using k by simp
      have nd: "nearest_double n 1 = Some (n * 2 ^ nat (53 - b), b - 53)"
        using ge neg b1 n(1) b_def
        by (simp add: nearest_double_def bit_length_1 Let_def round_half_even_1 max_def)
      show ?thesis
        using nd sign neg by (simp add: float_of_int_def double_def n_def [symmetric])
    qed
  qed
qed

lemma exact_number_float: "exact_number (JFloat x) x"
  by (simp add: exact_number_def)

lemma exact_number_small_int: "\<bar>i\<bar> \<le> 2 ^ 53 \<Longrightarrow> exact_number (JInt i) (Finite (of_int i))"
  by (simp add: exact_number_def float_of_small_int)

subsection \<open>The call and what follows it\<close>

lemma analyze_logs_content:
  assumes "AGI_API_KEY cfg = Some key" and "key \<noteq> []"
    and "post (make_request cfg key system_prompt (user_prompt req)) = Reply st reply"
    and "is_success st"
    and "json_loads lib reply = Some data"
    and "reply_content data = Inr raw"
  shows "fst (analyze_logs cfg lib post req w) =
    and_then (parse_response lib raw) (build_response lib)"
  using assms
  by (simp add: analyze_logs_def call_agi_agent_def falsy_def bearer_def Let_def)

subsection \<open>The tokenizer at the ends of a text\<close>

lemma isspace_iff:
  "isspace w \<longleftrightarrow> w = CHR 0x09 \<or> w = CHR 0x0A \<or> w = CHR 0x0B \<or> w = CHR 0x0C \<or> w = CHR 0x0D
    \<or> w = CHR 0x1C \<or> w = CHR 0x1D \<or> w = CHR 0x1E \<or> w = CHR 0x1F \<or> w = CHR 0x20
    \<or> w = CHR 0x85 \<or> w = CHR 0xA0"
  by (simp add: isspace_def)

lemma space_no_digit: "isspace w \<Longrightarrow> digit_of w = None"
  unfolding isspace_iff by (elim disjE) (simp_all add: digit_of_def)

lemma space_no_hex: "isspace w \<Longrightarrow> hex_of w = None"
  unfolding isspace_iff by (elim disjE) (simp_all add: hex_of_def)

lemma space_no_e: "isspace w \<Longrightarrow> \<not> is_e w"
  unfolding isspace_iff by (elim disjE) (simp_all add: is_e_def)

lemma space_no_escape: "isspace w \<Longrightarrow> unescape w = None"
  unfolding isspace_iff by (elim disjE) (simp_all add: unescape_def)

lemma start_space: "isspace w \<Longrightarrow> start w = (if json_ws w then Some ([], Between) else None)"
  unfolding isspace_iff by (elim disjE) (simp_all add: start_def json_ws_def digit_of_def)

lemma space_no_mark:
  "isspace w \<Longrightarrow> w \<noteq> CHR 0x22 \<and> w \<noteq> CHR 0x5C \<and> w \<noteq> CHR ''.'' \<and> w \<noteq> CHR ''u''
    \<and> w \<noteq> CHR ''0'' \<and> w \<noteq> CHR ''I'' \<and> w \<noteq> CHR ''+'' \<and> w \<noteq> CHR ''-'' \<and> w \<noteq> CHR ''`''"
  unfolding isspace_iff by (elim disjE) simp_all

lemmas space_facts =
  space_no_digit space_no_hex space_no_e space_no_escape start_space space_no_mark

lemma tick_facts:
  "digit_of CHR ''`'' = None" "hex_of CHR ''`'' = None" "\<not> is_e CHR ''`''"
  "unescape CHR ''`'' = None" "start CHR ''`'' = None" "\<not> isspace CHR ''`''"
  by (simp_all add: isspace_def digit_of_def hex_of_def is_e_def unescape_def start_def json_ws_def)

lemma clean_simps [simp]:
  "clean Between" "clean (In_string acc)" "clean (In_escape acc)" "clean (In_unicode acc ds)"
  "clean (In_literal rest tok) = list_all plain rest"
  "clean After_minus" "clean (After_zero neg)" "clean (In_int neg m n)" "clean (After_point neg m)"
  "clean (In_frac neg m fd)" "clean (After_e neg m fd)" "clean (After_exp_sign neg m fd eneg)"
  "clean (In_exp neg m fd eneg e)"
  by (simp_all add: clean_def)

lemma start_clean: "start c = Some (ts, st') \<Longrightarrow> clean st'"
  unfolding start_def
  by (auto simp: plain_def isspace_def split: if_splits option.splits)

lemma clean_step: "clean st \<Longrightarrow> step st c = Some (ts, st') \<Longrightarrow> clean st'"
proof (cases st)
  case Between
  then show "step st c = Some (ts, st') \<Longrightarrow> clean st'" by (auto dest: start_clean)
next
  case (In_literal rest tok)
  then show "clean st \<Longrightarrow> step st c = Some (ts, st') \<Longrightarrow> clean st'"
    by (cases rest) (auto split: if_splits)
next
  case After_minus
  then show "step st c = Some (ts, st') \<Longrightarrow> clean st'"
    by (auto simp: plain_def isspace_def split: if_splits option.splits)
qed (auto simp: end_number_def Let_def dest: start_clean split: if_splits option.splits)

text \<open>No text that ends with a backtick is cut into tokens.\<close>

lemma tokens_tick_single: "clean st \<Longrightarrow> tokens st [CHR ''`''] = None"
proof (cases st)
  case (In_literal rest tok)
  then show "clean st \<Longrightarrow> tokens st [CHR ''`''] = None"
    by (cases rest) (auto simp: plain_def)
qed (auto simp: tick_facts end_number_def last_token_def split: option.splits)

lemma tokens_ends_with_tick: "clean st \<Longrightarrow> tokens st (a @ [CHR ''`'']) = None"
proof (induction a arbitrary: st)
  case Nil
  then show ?case using tokens_tick_single by simp
next
  case (Cons c a)
  show ?case
  proof (cases "step st c")
    case None
    then show ?thesis by simp
  next
    case (Some p)
    obtain ts st' where p: "p = (ts, st')" by (cases p)
    have "clean st'" using Cons.prems Some p by (auto intro: clean_step)
    then have "tokens st' (a @ [CHR ''`'']) = None" by (rule Cons.IH)
    then show ?thesis using Some p by simp
  qed
qed

text \<open>Whitespace at the end of a text that is cut into tokens can be dropped.\<close>

lemma tokens_space_single:
  assumes "clean st" and "isspace w" and "tokens st [w] = Some ts"
  shows "finish st = Some ts"
proof (cases st)
  case (In_literal rest tok)
  then show ?thesis using assms by (cases rest) (auto simp: plain_def split: if_splits)
next
  case (In_string acc)
  then show ?thesis using assms by (auto simp: space_no_mark split: if_splits)
qed (use assms in \<open>auto simp: space_facts end_number_def last_token_def
       split: if_splits option.splits\<close>)

lemma tokens_drop_last_space:
  "clean st \<Longrightarrow> isspace w \<Longrightarrow> tokens st (a @ [w]) = Some ts \<Longrightarrow> tokens st a = Some ts"
proof (induction a arbitrary: st ts)
  case Nil
  then show ?case using tokens_space_single by simp
next
  case (Cons c a)
  from Cons.prems(3) obtain us st' vs where
    s: "step st c = Some (us, st')" and t: "tokens st' (a @ [w]) = Some vs" and ts: "ts = us @ vs"
    by (auto split: option.splits)
  have "clean st'" using Cons.prems(1) s by (rule clean_step)
  then have "tokens st' a = Some vs" using Cons.prems(2) t by (rule Cons.IH)
  then show ?case using s ts by simp
qed

text \<open>So can whitespace at its beginning.\<close>

lemma tokens_drop_first_space:
  "isspace w \<Longrightarrow> tokens Between (w # s) = Some ts \<Longrightarrow> tokens Between s = Some ts"
  by (auto simp: start_space split: option.splits if_splits)

lemma tokens_dropWhile:
  "tokens Between s = Some ts \<Longrightarrow> tokens Between (dropWhile isspace s) = Some ts"
  by (induction s) (auto dest: tokens_drop_first_space)

lemma tokens_strip_end:
  "tokens Between s = Some ts \<Longrightarrow> tokens Between (rev (dropWhile isspace (rev s))) = Some ts"
proof (induction s rule: rev_induct)
  case Nil
  then show ?case by simp
next
  case (snoc w a)
  show ?case
  proof (cases "isspace w")
    case True
    have "clean Between" by simp
    then have "tokens Between a = Some ts" using True snoc.prems by (rule tokens_drop_last_space)
    then show ?thesis using True snoc.IH by simp
  next
    case False
    then show ?thesis using snoc.prems by simp
  qed
qed

lemma tokens_py_strip:
  "tokens Between s = Some ts \<Longrightarrow> tokens Between (py_strip s) = Some ts"
  unfolding py_strip_def strip_where_def
  by (intro tokens_strip_end tokens_dropWhile)

text \<open>Three facts of the decoder: trimming an accepted text changes nothing; an accepted
  text neither begins nor ends with a backtick.\<close>

lemma json_decode_py_strip:
  assumes "json_decode s = Some v"
  shows "json_decode (py_strip s) = Some v"
proof -
  from assms obtain ts where ts: "tokens Between s = Some ts"
    by (auto simp: json_decode_def split: option.splits)
  then have "tokens Between (py_strip s) = Some ts" by (rule tokens_py_strip)
  then show ?thesis using assms ts by (simp add: json_decode_def)
qed

lemma json_decode_starts_with_tick: "json_decode (CHR ''`'' # s) = None"
  by (simp add: json_decode_def tick_facts)

lemma json_decode_nonempty: "json_decode s = Some v \<Longrightarrow> s \<noteq> []"
  by (auto simp: json_decode_def)

lemma json_decode_last:
  assumes "json_decode s = Some v"
  shows "last s \<noteq> CHR ''`''"
proof
  assume l: "last s = CHR ''`''"
  have "s \<noteq> []" using assms by (rule json_decode_nonempty)
  then have "s = butlast s @ [CHR ''`'']" using l by (metis append_butlast_last_id)
  moreover have "tokens Between (butlast s @ [CHR ''`'']) = None"
    by (rule tokens_ends_with_tick) simp
  ultimately have "tokens Between s = None" by simp
  then show False using assms by (simp add: json_decode_def)
qed

subsection \<open>The fallback transform on a fenced text\<close>

lemma strip_where_sandwich:
  assumes "list_all p pre" and "list_all p post"
    and "x \<noteq> []" and "\<not> p (hd x)" and "\<not> p (last x)"
  shows "strip_where p (pre @ x @ post) = x"
proof -
  have "dropWhile p (pre @ x @ post) = dropWhile p (x @ post)"
    using assms(1) by (intro dropWhile_append2) (simp add: list_all_iff)
  also have "\<dots> = x @ post"
    using assms(3,4) by (cases x) simp_all
  finally have a: "dropWhile p (pre @ x @ post) = x @ post" .
  have "dropWhile p (rev post @ rev x) = dropWhile p (rev x)"
    using assms(2) by (intro dropWhile_append2) (simp add: list_all_iff)
  also have "\<dots> = rev x"
    using assms(3,5) by (cases "rev x") (auto simp: last_rev[symmetric] hd_rev)
  finally show ?thesis by (simp add: strip_where_def a)
qed

lemma cleaned_fence:
  assumes "0 < n" and "0 < m" and "doc \<noteq> []" and "last doc \<noteq> CHR ''`''"
  shows "cleaned (replicate n CHR ''`'' @ ''json'' @ doc @ replicate m CHR ''`'') = py_strip doc"
proof -
  let ?w = "replicate n CHR ''`'' @ ''json'' @ doc @ replicate m CHR ''`''"
  have "strip_where isspace ([] @ ?w @ []) = ?w"
    using assms(1,2) by (intro strip_where_sandwich) (auto simp: tick_facts hd_append)
  then have 1: "py_strip ?w = ?w" by (simp add: py_strip_def)
  have "strip_where (\<lambda>c. c \<in> set ''`'') (replicate n CHR ''`'' @ (''json'' @ doc) @ replicate m CHR ''`'')
      = ''json'' @ doc"
    using assms(3,4) by (intro strip_where_sandwich) (auto simp: list_all_iff)
  then have 2: "py_strip_chars ''`'' ?w = ''json'' @ doc" by (simp add: py_strip_chars_def)
  have 3: "py_replace_first ''json'' [] (''json'' @ doc) = doc" by simp
  show ?thesis by (simp only: cleaned_def 1 2 3)
qed

subsection \<open>The worked request, evaluated\<close>

lemma example_payload_decoded: "json_decode example_payload = Some (JObj example_result)"
  by code_simp

lemma example_envelope_decoded:
  "json_decode (envelope example_payload) =
     Some (JObj [(''choices'', JArr [JObj [(''message'', JObj [(''content'', JStr example_payload)])]])])"
  by code_simp

lemma example_key: "AGI_API_KEY example_config = Some ''secret''"
  by (simp add: example_config_def)

section \<open>The claims\<close>

text \<open>
  C1. A JSON document wrapped in a code fence with a leading \<open>json\<close> tag (one or more
  backticks, the word \<open>json\<close>, the document, one or more backticks) is recovered by the
  \<open>try\<close> statement of \<open>analyze_logs\<close> to the same parsed result as the document alone:
  the direct parse of the fenced text fails, and the fallback transform leaves the
  document without its surrounding whitespace. This holds for every \<open>json_loads\<close> that
  rejects a text beginning with a backtick, that reads an accepted text, once its
  surrounding whitespace is stripped, as it reads the text itself, and that accepts
  neither the empty text nor a text ending with a backtick.
\<close>

theorem fenced_json_recovered:
  assumes "\<And>s. json_loads lib (CHR ''`'' # s) = None"
    and "\<And>s u. json_loads lib s = Some u \<Longrightarrow> json_loads lib (py_strip s) = Some u"
    and "\<And>s u. json_loads lib s = Some u \<Longrightarrow> s \<noteq> [] \<and> last s \<noteq> CHR ''`''"
    and "json_loads lib doc = Some v"
    and "0 < n" and "0 < m"
  shows "parse_response lib (JStr (replicate n CHR ''`'' @ ''json'' @ doc @ replicate m CHR ''`''))
      = parse_response lib (JStr doc)
    \<and> parse_response lib (JStr doc) = Inr v"
proof -
  let ?w = "replicate n CHR ''`'' @ ''json'' @ doc @ replicate m CHR ''`''"
  obtain k where k: "n = Suc k" using assms(5) by (cases n) auto
  have direct: "json_loads lib ?w = None"
    by (simp add: k assms(1))
  have ends: "doc \<noteq> []" "last doc \<noteq> CHR ''`''"
    using assms(3) [OF assms(4)] by simp_all
  have "cleaned ?w = py_strip doc"
    using assms(5,6) ends by (rule cleaned_fence)
  then have "json_loads lib (cleaned ?w) = Some v"
    using assms(2) [OF assms(4)] by simp
  then show ?thesis using direct assms(4) by (simp add: parse_response_def)
qed

theorem fenced_json_recovered_witness:
  "json_loads strict_lib example_doc = Some (JObj [(''summary'', JStr ''ok'')])
   \<and> parse_response strict_lib
        (JStr (replicate 3 CHR ''`'' @ ''json'' @ example_doc @ replicate 3 CHR ''`''))
      = Inr (JObj [(''summary'', JStr ''ok'')])"
proof -
  have tick: "json_loads strict_lib (CHR ''`'' # s) = None" for s
    by (simp add: strict_lib_def json_decode_starts_with_tick)
  have strip: "json_loads strict_lib (py_strip s) = Some u"
    if "json_loads strict_lib s = Some u" for s u
    using that by (simp add: strict_lib_def json_decode_py_strip)
  have ends: "s \<noteq> [] \<and> last s \<noteq> CHR ''`''"
    if "json_loads strict_lib s = Some u" for s u
    using that json_decode_nonempty [of s u] json_decode_last [of s u]
    by (simp add: strict_lib_def)
  have "json_decode example_doc = Some (JObj [(''summary'', JStr ''ok'')])"
    by code_simp
  then have d: "json_loads strict_lib example_doc = Some (JObj [(''summary'', JStr ''ok'')])"
    by (simp add: strict_lib_def)
  have three: "(0::nat) < 3" by simp
  show ?thesis
    using fenced_json_recovered [of strict_lib example_doc "JObj [(''summary'', JStr ''ok'')]" 3 3,
      OF tick strip ends d three three] d
    by simp
qed

text \<open>
  C2. When the external service answers with a success status, and the content of its
  reply is exact JSON for an object with all the schema fields, each of its declared type
  (\<open>summary\<close> a string, \<open>detections\<close> a list of objects with \<open>title\<close>, \<open>description\<close>,
  \<open>severity\<close> and \<open>indicators\<close>, \<open>recommended_actions\<close> and \<open>queries_to_run\<close> lists of
  strings), with an \<open>overall_risk_score\<close> that is a float, or an integer that its
  conversion to float leaves unchanged, \<open>analyze_logs\<close> returns the response whose fields
  are the fields of the payload.
\<close>

theorem exact_payload_round_trip:
  assumes "AGI_API_KEY cfg = Some key" and "key \<noteq> []"
    and "post (make_request cfg key system_prompt (user_prompt req)) = Reply st reply"
    and "is_success st"
    and "json_loads lib reply = Some data"
    and "reply_content data = Inr (JStr payload)"
    and "json_loads lib payload = Some (JObj kv)"
    and "map_of kv ''overall_risk_score'' = Some sc" and "exact_number sc x"
    and "map_of kv ''summary'' = Some (JStr su)"
    and "map_of kv ''detections'' = Some (JArr items)"
    and "list_all2 encodes ds items"
    and "map_of kv ''recommended_actions'' = Some (JArr (map JStr ra))"
    and "map_of kv ''queries_to_run'' = Some (JArr (map JStr qs))"
  shows "fst (analyze_logs cfg lib post req w) =
    Inr \<lparr>overall_risk_score = x, summary = su, detections = ds,
         recommended_actions = ra, queries_to_run = qs\<rparr>"
proof -
  have "parse_response lib (JStr payload) = Inr (JObj kv)"
    using assms(7) by (simp add: parse_response_def)
  moreover have "build_response lib (JObj kv) =
    Inr \<lparr>overall_risk_score = x, summary = su, detections = ds,
         recommended_actions = ra, queries_to_run = qs\<rparr>"
    using assms(8-14) by (rule build_response_exact)
  moreover have "fst (analyze_logs cfg lib post req w) =
    and_then (parse_response lib (JStr payload)) (build_response lib)"
    using assms(1-6) by (rule analyze_logs_content)
  ultimately show ?thesis by simp
qed

theorem exact_payload_round_trip_witness:
  "fst (analyze_logs example_config strict_lib (stub_post 200 (envelope example_payload))
     example_request quiet) = Inr example_response
   \<and> overall_risk_score example_response = Finite 72.5"
proof -
  let ?data = "JObj [(''choices'',
    JArr [JObj [(''message'', JObj [(''content'', JStr example_payload)])]])]"
  have h3: "stub_post 200 (envelope example_payload)
      (make_request example_config ''secret'' system_prompt (user_prompt example_request))
    = Reply 200 (envelope example_payload)"
    by (simp add: stub_post_def)
  have h4: "is_success 200" by (simp add: is_success_def)
  have h5: "json_loads strict_lib (envelope example_payload) = Some ?data"
    by (simp add: strict_lib_def example_envelope_decoded)
  have h6: "reply_content ?data = Inr (JStr example_payload)"
    by (simp add: reply_content_def)
  have h7: "json_loads strict_lib example_payload = Some (JObj example_result)"
    by (simp add: strict_lib_def example_payload_decoded)
  have h8: "map_of example_result ''overall_risk_score'' = Some (JFloat (Finite 72.5))"
    by (simp add: example_result_def)
  have h9: "exact_number (JFloat (Finite 72.5)) (Finite 72.5)"
    by (rule exact_number_float)
  have h12: "list_all2 encodes (detections example_response)
    [JObj [(''title'', JStr ''Failed logins''), (''description'', JStr ''x5''),
           (''severity'', JStr ''High''), (''indicators'', JArr [JStr ''10.0.0.5''])]]"
    by (simp add: example_response_def encodes_def)
  have "fst (analyze_logs example_config strict_lib (stub_post 200 (envelope example_payload))
      example_request quiet) =
    Inr \<lparr>overall_risk_score = Finite 72.5, summary = ''Brute force'',
         detections = detections example_response,
         recommended_actions = [''Block IP''], queries_to_run = [''index=auth'']\<rparr>"
    by (rule exact_payload_round_trip [where cfg = example_config and lib = strict_lib
          and post = "stub_post 200 (envelope example_payload)" and req = example_request
          and key = "''secret''" and st = 200
          and reply = "envelope example_payload" and data = ?data
          and payload = example_payload and kv = example_result,
          OF example_key _ h3 h4 h5 h6 h7 h8 h9 _ _ h12])
       (simp_all add: example_result_def)
  then show ?thesis by (simp add: example_response_def)
qed

text \<open>
  As C2 is worded, for every payload with all the schema fields, it fails on an integer
  score that no double holds: the payload with the score 9007199254740993, one more than
  \<open>2 ^ 53\<close>, comes back with the score 9007199254740992, the float that pydantic makes of
  the integer for the \<open>float\<close> field.
\<close>

theorem exact_payload_round_trip_counterexample:
  "json_loads strict_lib odd_payload = Some (JObj odd_result)
   \<and> map_of odd_result ''overall_risk_score'' = Some (JInt 9007199254740993)
   \<and> fst (analyze_logs example_config strict_lib (stub_post 200 (envelope odd_payload))
        example_request quiet)
      = Inr (example_response\<lparr>overall_risk_score := Finite 9007199254740992\<rparr>)
   \<and> Finite 9007199254740992 \<noteq> Finite (of_int 9007199254740993)"
proof -
  have "json_decode odd_payload = Some (JObj odd_result)"
    by code_simp
  then have a: "json_loads strict_lib odd_payload = Some (JObj odd_result)"
    by (simp add: strict_lib_def)
  have b: "map_of odd_result ''overall_risk_score'' = Some (JInt 9007199254740993)"
    by (simp add: odd_result_def update_conv')
  have c: "fst (analyze_logs example_config strict_lib (stub_post 200 (envelope odd_payload))
        example_request quiet)
      = Inr (example_response\<lparr>overall_risk_score := Finite 9007199254740992\<rparr>)"
    by code_simp
  have d: "Finite 9007199254740992 \<noteq> Finite (of_int 9007199254740993)"
    by simp
  from a b c d show ?thesis by blast
qed

text \<open>
  C3. While the credential of the external service is not set, every request fails with
  status 500 and the fixed detail, and the world is unchanged: nothing is sent to the
  network, whatever the external service would have answered.
\<close>

theorem missing_credential_fails:
  assumes "AGI_API_KEY cfg = None"
  shows "analyze_logs cfg lib post req w = (Inl (HTTPException 500 missing_key_detail), w)
    \<and> status_code (fst (analyze_logs cfg lib post req w)) = 500
    \<and> sent (snd (analyze_logs cfg lib post req w)) = sent w"
  using assms by (simp add: analyze_logs_def call_agi_agent_def falsy_def)

theorem missing_credential_fails_witness:
  "analyze_logs (example_config\<lparr>AGI_API_KEY := None\<rparr>) strict_lib
       (stub_post 200 (envelope example_payload)) example_request quiet
     = (Inl (HTTPException 500
          ''AGI_API_KEY is not configured on the server. Set it in backend/.env''), quiet)
   \<and> sent quiet = []"
proof -
  have "AGI_API_KEY (example_config\<lparr>AGI_API_KEY := None\<rparr>) = None" by simp
  then show ?thesis
    using missing_credential_fails [of "example_config\<lparr>AGI_API_KEY := None\<rparr>" strict_lib
      "stub_post 200 (envelope example_payload)" example_request quiet]
    by (simp add: missing_key_detail_def quiet_def)
qed

text \<open>
  C4. When the content of the reply is a text on which the direct parse fails and the
  parse of the fallback transform fails too, the request fails with \<open>JSONDecodeError\<close>,
  which the caller sees as status 500: no response is returned, and nothing else is
  tried.
\<close>

theorem unparsable_payload_fails:
  assumes "AGI_API_KEY cfg = Some key" and "key \<noteq> []"
    and "post (make_request cfg key system_prompt (user_prompt req)) = Reply st reply"
    and "is_success st"
    and "json_loads lib reply = Some data"
    and "reply_content data = Inr (JStr s)"
    and "json_loads lib s = None"
    and "json_loads lib (cleaned s) = None"
  shows "parse_response lib (JStr s) = Inl JSONDecodeError
    \<and> fst (analyze_logs cfg lib post req w) = Inl JSONDecodeError
    \<and> status_code (fst (analyze_logs cfg lib post req w)) = 500"
proof -
  have "parse_response lib (JStr s) = Inl JSONDecodeError"
    using assms(7,8) by (simp add: parse_response_def)
  moreover have "fst (analyze_logs cfg lib post req w) =
    and_then (parse_response lib (JStr s)) (build_response lib)"
    using assms(1-6) by (rule analyze_logs_content)
  ultimately show ?thesis by simp
qed

theorem unparsable_payload_fails_witness:
  \<open>cleaned example_truncated = ''{"summary": "Brute''
   \<and> fst (analyze_logs example_config strict_lib (stub_post 200 (envelope example_truncated))
       example_request quiet) = Inl JSONDecodeError\<close>
proof -
  let ?data = "JObj [(''choices'',
    JArr [JObj [(''message'', JObj [(''content'', JStr example_truncated)])]])]"
  have c: \<open>cleaned example_truncated = ''{"summary": "Brute''\<close>
    by code_simp
  have h3: "stub_post 200 (envelope example_truncated)
      (make_request example_config ''secret'' system_prompt (user_prompt example_request))
    = Reply 200 (envelope example_truncated)"
    by (simp add: stub_post_def)
  have h4: "is_success 200" by (simp add: is_success_def)
  have "json_decode (envelope example_truncated) = Some ?data" by code_simp
  then have h5: "json_loads strict_lib (envelope example_truncated) = Some ?data"
    by (simp add: strict_lib_def)
  have h6: "reply_content ?data = Inr (JStr example_truncated)"
    by (simp add: reply_content_def)
  have "json_decode example_truncated = None" by code_simp
  then have h7: "json_loads strict_lib example_truncated = None"
    by (simp add: strict_lib_def)
  have "json_decode (cleaned example_truncated) = None" by code_simp
  then have h8: "json_loads strict_lib (cleaned example_truncated) = None"
    by (simp add: strict_lib_def)
  have "fst (analyze_logs example_config strict_lib (stub_post 200 (envelope example_truncated))
       example_request quiet) = Inl JSONDecodeError"
    using unparsable_payload_fails [where cfg = example_config and lib = strict_lib
        and post = "stub_post 200 (envelope example_truncated)" and req = example_request
        and w = quiet and key = "''secret''" and st = 200
        and reply = "envelope example_truncated" and data = ?data and s = example_truncated,
        OF example_key _ h3 h4 h5 h6 h7 h8]
    by simp
  then show ?thesis using c by simp
qed

text \<open>
  C5. A top-level key that the parsed object lacks is read as its default: the empty list
  for \<open>detections\<close>, \<open>recommended_actions\<close> and \<open>queries_to_run\<close>, the empty string for
  \<open>summary\<close>, 0.0 for \<open>overall_risk_score\<close>; and the lack of a key is never what makes the
  request fail: taking any of the five keys away from a payload that yields a response
  yields the same response with the default in that field, and the empty object yields
  the response of the five defaults.
\<close>

theorem absent_fields_default:
  assumes "build_response lib (JObj kv) = Inr r"
  shows "(map_of kv ''detections'' = None \<longrightarrow> detections r = [])
    \<and> (map_of kv ''recommended_actions'' = None \<longrightarrow> recommended_actions r = [])
    \<and> (map_of kv ''queries_to_run'' = None \<longrightarrow> queries_to_run r = [])
    \<and> (map_of kv ''summary'' = None \<longrightarrow> summary r = '''')
    \<and> (map_of kv ''overall_risk_score'' = None \<longrightarrow> overall_risk_score r = Finite 0.0)
    \<and> build_response lib (JObj (AList.delete ''detections'' kv)) = Inr (r\<lparr>detections := []\<rparr>)
    \<and> build_response lib (JObj (AList.delete ''recommended_actions'' kv))
          = Inr (r\<lparr>recommended_actions := []\<rparr>)
    \<and> build_response lib (JObj (AList.delete ''queries_to_run'' kv))
          = Inr (r\<lparr>queries_to_run := []\<rparr>)
    \<and> build_response lib (JObj (AList.delete ''summary'' kv)) = Inr (r\<lparr>summary := ''''\<rparr>)
    \<and> build_response lib (JObj (AList.delete ''overall_risk_score'' kv))
          = Inr (r\<lparr>overall_risk_score := Finite 0.0\<rparr>)
    \<and> build_response lib (JObj []) =
          Inr \<lparr>overall_risk_score = Finite 0.0, summary = '''', detections = [],
               recommended_actions = [], queries_to_run = []\<rparr>"
proof -
  have a: "map_of kv ''detections'' = None \<longrightarrow> detections r = []"
    using assms by (auto simp: build_response_iff)
  have b: "map_of kv ''recommended_actions'' = None \<longrightarrow> recommended_actions r = []"
    using assms by (auto simp: build_response_iff)
  have c: "map_of kv ''queries_to_run'' = None \<longrightarrow> queries_to_run r = []"
    using assms by (auto simp: build_response_iff)
  have d: "map_of kv ''summary'' = None \<longrightarrow> summary r = ''''"
    using assms by (auto simp: build_response_iff)
  have e: "map_of kv ''overall_risk_score'' = None \<longrightarrow> overall_risk_score r = Finite 0.0"
    using assms by (auto simp: build_response_iff)
  have f: "build_response lib (JObj (AList.delete ''detections'' kv)) = Inr (r\<lparr>detections := []\<rparr>)"
    using assms by (simp add: build_response_iff dict_get_delete)
  have g: "build_response lib (JObj (AList.delete ''recommended_actions'' kv))
          = Inr (r\<lparr>recommended_actions := []\<rparr>)"
    using assms by (simp add: build_response_iff dict_get_delete)
  have h: "build_response lib (JObj (AList.delete ''queries_to_run'' kv))
          = Inr (r\<lparr>queries_to_run := []\<rparr>)"
    using assms by (simp add: build_response_iff dict_get_delete)
  have i: "build_response lib (JObj (AList.delete ''summary'' kv)) = Inr (r\<lparr>summary := ''''\<rparr>)"
    using assms by (simp add: build_response_iff dict_get_delete)
  have j: "build_response lib (JObj (AList.delete ''overall_risk_score'' kv))
          = Inr (r\<lparr>overall_risk_score := Finite 0.0\<rparr>)"
    using assms by (simp add: build_response_iff dict_get_delete)
  have k: "build_response lib (JObj []) =
          Inr \<lparr>overall_risk_score = Finite 0.0, summary = '''', detections = [],
               recommended_actions = [], queries_to_run = []\<rparr>"
    by (simp add: build_response_iff)
  from a b c d e f g h i j k show ?thesis by blast
qed

theorem absent_fields_default_witness:
  "build_response strict_lib (JObj [(''summary'', JStr ''Nothing found'')]) =
     Inr \<lparr>overall_risk_score = Finite 0.0, summary = ''Nothing found'', detections = [],
          recommended_actions = [], queries_to_run = []\<rparr>
   \<and> build_response strict_lib (JObj (AList.delete ''summary'' [(''summary'', JStr ''Nothing found'')])) =
     Inr \<lparr>overall_risk_score = Finite 0.0, summary = '''', detections = [],
          recommended_actions = [], queries_to_run = []\<rparr>"
proof -
  have "build_response strict_lib (JObj [(''summary'', JStr ''Nothing found'')]) =
     Inr \<lparr>overall_risk_score = Finite 0.0, summary = ''Nothing found'', detections = [],
          recommended_actions = [], queries_to_run = []\<rparr>"
    by (simp add: build_response_iff dict_get_def)
  from absent_fields_default [OF this] this show ?thesis by simp
qed

text \<open>
  C6. In the response that a parsed payload yields, the detection of an entry without the
  key \<open>severity\<close> has the severity \<open>Medium\<close>, and the detection of an entry without the
  key \<open>indicators\<close> has no indicators. The detections are those of the entries, in
  order.
\<close>

theorem severity_defaults_to_Medium:
  assumes "build_response lib (JObj kv) = Inr r"
    and "map_of kv ''detections'' = Some (JArr items)"
    and "i < length items" and "items ! i = JObj d"
  shows "length (detections r) = length items
    \<and> (map_of d ''severity'' = None \<longrightarrow> severity (detections r ! i) = ''Medium'')
    \<and> (map_of d ''indicators'' = None \<longrightarrow> indicators (detections r ! i) = [])"
proof -
  have "list_all2 (\<lambda>x y. make_detection lib x = Inr y) items (detections r)"
    using assms(1,2) by (rule detections_of_items)
  then have len: "length (detections r) = length items"
    by (simp add: list_all2_lengthD)
  have "make_detection lib (JObj d) = Inr (detections r ! i)"
    using assms by (rule detection_of_item)
  then show ?thesis using len by (auto simp: make_detection_iff)
qed

theorem severity_defaults_to_Medium_witness:
  "build_response strict_lib
     (JObj [(''detections'', JArr [JObj [(''title'', JStr ''Port scan'')]])]) =
     Inr \<lparr>overall_risk_score = Finite 0.0, summary = '''',
          detections = [\<lparr>title = ''Port scan'', description = '''', severity = ''Medium'',
                         indicators = []\<rparr>],
          recommended_actions = [], queries_to_run = []\<rparr>
   \<and> severity (\<lparr>title = ''Port scan'', description = '''', severity = ''Medium'',
                  indicators = []\<rparr>) = ''Medium''"
proof -
  let ?kv = "[(''detections'', JArr [JObj [(''title'', JStr ''Port scan'')]])]"
  let ?r = "\<lparr>overall_risk_score = Finite 0.0, summary = '''',
          detections = [\<lparr>title = ''Port scan'', description = '''', severity = ''Medium'',
                         indicators = []\<rparr>],
          recommended_actions = [], queries_to_run = []\<rparr>"
  have b: "build_response strict_lib (JObj ?kv) = Inr ?r"
    by code_simp
  have "map_of ?kv ''detections'' = Some (JArr [JObj [(''title'', JStr ''Port scan'')]])"
    by simp
  from severity_defaults_to_Medium [OF b this, of 0 "[(''title'', JStr ''Port scan'')]"] b
  show ?thesis by simp
qed

text \<open>
  C7. When the external call completes with a status that is not a success, the request
  fails with an \<open>HTTPException\<close> of the same status code, whose detail is the text
  \<open>AGI API error: \<close> followed by the body of the external response, character for
  character.
\<close>

theorem external_error_propagated:
  assumes "AGI_API_KEY cfg = Some key" and "key \<noteq> []"
    and "post (make_request cfg key system_prompt (user_prompt req)) = Reply st reply"
    and "\<not> is_success st"
  shows "fst (analyze_logs cfg lib post req w) = Inl (HTTPException st (''AGI API error: '' @ reply))
    \<and> status_code (fst (analyze_logs cfg lib post req w)) = st"
  using assms by (simp add: analyze_logs_def call_agi_agent_def falsy_def bearer_def Let_def)

theorem external_error_propagated_witness:
  "fst (analyze_logs example_config strict_lib (stub_post 503 ''overloaded'') example_request quiet)
     = Inl (HTTPException 503 ''AGI API error: overloaded'')
   \<and> status_code (fst (analyze_logs example_config strict_lib (stub_post 503 ''overloaded'')
        example_request quiet)) = 503"
proof -
  have h3: "stub_post 503 ''overloaded''
      (make_request example_config ''secret'' system_prompt (user_prompt example_request))
    = Reply 503 ''overloaded''"
    by (simp add: stub_post_def)
  have h4: "\<not> is_success 503" by (simp add: is_success_def)
  show ?thesis
    using external_error_propagated [where cfg = example_config and lib = strict_lib
        and post = "stub_post 503 ''overloaded''" and req = example_request and w = quiet
        and key = "''secret''" and st = 503 and reply = "''overloaded''",
        OF example_key _ h3 h4]
    by simp
qed

text \<open>
  The detail is not the body alone, as C7 is worded: at status 404 with the body
  \<open>not found\<close> the detail is \<open>AGI API error: not found\<close>.
\<close>

theorem external_error_detail_counterexample:
  "\<not> is_success 404
   \<and> fst (analyze_logs example_config strict_lib (stub_post 404 ''not found'')
        example_request quiet) = Inl (HTTPException 404 ''AGI API error: not found'')
   \<and> fst (analyze_logs example_config strict_lib (stub_post 404 ''not found'')
        example_request quiet) \<noteq> Inl (HTTPException 404 ''not found'')"
  by (simp add: analyze_logs_def call_agi_agent_def falsy_def example_config_def
        stub_post_def is_success_def Let_def)

text \<open>
  C8. A score of the payload that is a float, or an integer that its conversion to float
  leaves unchanged, is the score of the response, whatever its value: there is no
  clamping and no validation against the range from 0 to 100. The score of a payload
  that yields a response can be replaced by any such number, and the payload still
  yields a response, with that score; so does the payload of that score alone.
\<close>

theorem risk_score_not_clamped:
  assumes "build_response lib (JObj kv) = Inr r" and "exact_number sc x"
  shows "(map_of kv ''overall_risk_score'' = Some sc \<longrightarrow> overall_risk_score r = x)
    \<and> build_response lib (JObj (AList.update ''overall_risk_score'' sc kv))
        = Inr (r\<lparr>overall_risk_score := x\<rparr>)
    \<and> build_response lib (JObj [(''overall_risk_score'', sc)])
        = Inr \<lparr>overall_risk_score = x, summary = '''', detections = [],
               recommended_actions = [], queries_to_run = []\<rparr>"
proof -
  have v: "validate_float lib sc = Inr x"
    using assms(2) by (rule validate_exact_number)
  have a: "map_of kv ''overall_risk_score'' = Some sc \<longrightarrow> overall_risk_score r = x"
    using assms(1) v by (auto simp: build_response_iff)
  have b: "build_response lib (JObj (AList.update ''overall_risk_score'' sc kv))
        = Inr (r\<lparr>overall_risk_score := x\<rparr>)"
    using assms(1) v by (simp add: build_response_iff dict_get_update)
  have c: "build_response lib (JObj [(''overall_risk_score'', sc)])
        = Inr \<lparr>overall_risk_score = x, summary = '''', detections = [],
               recommended_actions = [], queries_to_run = []\<rparr>"
    using v by (simp add: build_response_iff dict_get_def)
  from a b c show ?thesis by blast
qed

theorem risk_score_not_clamped_witness:
  "build_response strict_lib
     (JObj [(''overall_risk_score'', JFloat (Finite 250)), (''summary'', JStr ''Nothing found'')]) =
     Inr \<lparr>overall_risk_score = Finite 250, summary = ''Nothing found'', detections = [],
          recommended_actions = [], queries_to_run = []\<rparr>
   \<and> build_response strict_lib
     (JObj (AList.update ''overall_risk_score'' (JInt (- 5))
        [(''overall_risk_score'', JFloat (Finite 250)), (''summary'', JStr ''Nothing found'')])) =
     Inr \<lparr>overall_risk_score = Finite (- 5), summary = ''Nothing found'', detections = [],
          recommended_actions = [], queries_to_run = []\<rparr>"
proof -
  let ?kv = "[(''overall_risk_score'', JFloat (Finite 250)), (''summary'', JStr ''Nothing found'')]"
  have b: "build_response strict_lib (JObj ?kv) =
     Inr \<lparr>overall_risk_score = Finite 250, summary = ''Nothing found'', detections = [],
          recommended_actions = [], queries_to_run = []\<rparr>"
    by (simp add: build_response_iff dict_get_def)
  have "\<bar>- 5 :: int\<bar> \<le> 2 ^ 53" by simp
  then have e: "exact_number (JInt (- 5)) (Finite (of_int (- 5)))"
    by (rule exact_number_small_int)
  from risk_score_not_clamped [OF b e] b show ?thesis by simp
qed

text \<open>
  As C8 is worded, for every numeric score, it fails on an integer that no double holds:
  the score 9007199254740993 comes back as 9007199254740992, and the score \<open>10 ^ 309\<close>,
  beyond the largest double, is refused by the \<open>float\<close> field.
\<close>

theorem risk_score_not_clamped_counterexample:
  "build_response strict_lib (JObj [(''overall_risk_score'', JInt 9007199254740993)])
     = Inr \<lparr>overall_risk_score = Finite 9007199254740992, summary = '''', detections = [],
            recommended_actions = [], queries_to_run = []\<rparr>
   \<and> Finite 9007199254740992 \<noteq> Finite (of_int 9007199254740993)
   \<and> build_response strict_lib (JObj [(''overall_risk_score'', JInt (10 ^ 309))])
     = Inl ValidationError"
proof -
  have a: "build_response strict_lib (JObj [(''overall_risk_score'', JInt 9007199254740993)])
     = Inr \<lparr>overall_risk_score = Finite 9007199254740992, summary = '''', detections = [],
            recommended_actions = [], queries_to_run = []\<rparr>"
    by code_simp
  have b: "Finite 9007199254740992 \<noteq> Finite (of_int 9007199254740993)"
    by simp
  have "float_of_int (10 ^ 309) = None"
    by code_simp
  then have c: "build_response strict_lib (JObj [(''overall_risk_score'', JInt (10 ^ 309))])
     = Inl ValidationError"
    by (simp add: build_response_def LogAnalysisResponse_init_def dict_get_def)
  from a b c show ?thesis by blast
qed

text \<open>
  C9. An \<open>environment\<close> or a \<open>question\<close> that is present but empty gives the same user
  prompt as an absent one: the prompt then reads \<open>Not specified\<close>, respectively
  \<open>General threat hunting and incident triage.\<close>
\<close>

theorem empty_field_is_absent_field:
  "user_prompt (req\<lparr>environment := Some ''''\<rparr>) = user_prompt (req\<lparr>environment := None\<rparr>)
   \<and> user_prompt (req\<lparr>question := Some ''''\<rparr>) = user_prompt (req\<lparr>question := None\<rparr>)
   \<and> user_prompt \<lparr>logs = l, environment = Some '''', question = Some ''''\<rparr> =
       ''\<newline>    ENVIRONMENT:\<newline>    Not specified'' @
       ''\<newline>\<newline>    ANALYST QUESTION / FOCUS:\<newline>    General threat hunting and incident triage.'' @
       ''\<newline>\<newline>    LOGS:\<newline>    '' @ l @ ''\<newline>    ''"
  by (simp add: user_prompt_def py_or_def)

theorem empty_field_is_absent_field_witness:
  "user_prompt \<lparr>logs = ''sshd: failed password'', environment = Some '''', question = Some ''''\<rparr> =
     user_prompt \<lparr>logs = ''sshd: failed password'', environment = None, question = None\<rparr>"
  using empty_field_is_absent_field
    [of "\<lparr>logs = ''sshd: failed password'', environment = None, question = None\<rparr>"
        "''sshd: failed password''"]
  by (simp add: user_prompt_def py_or_def)

text \<open>
  C10. In the response that a parsed payload yields, the detection of an entry without
  the key \<open>title\<close> has the empty title, and the detection of an entry without the key
  \<open>description\<close> has the empty description; and the lack of either key is never what
  makes the request fail: taking the title, or the description, away from any entry of a
  payload that yields a response yields the same response with the empty string there.
\<close>

theorem title_description_default_to_empty:
  assumes "build_response lib (JObj kv) = Inr r"
    and "map_of kv ''detections'' = Some (JArr items)"
    and "i < length items" and "items ! i = JObj d"
  shows "(map_of d ''title'' = None \<longrightarrow> title (detections r ! i) = '''')
    \<and> (map_of d ''description'' = None \<longrightarrow> description (detections r ! i) = '''')
    \<and> build_response lib
          (JObj (AList.update ''detections''
             (JArr (items[i := JObj (AList.delete ''title'' d)])) kv))
        = Inr (r\<lparr>detections := (detections r)[i := (detections r ! i)\<lparr>title := ''''\<rparr>]\<rparr>)
    \<and> build_response lib
          (JObj (AList.update ''detections''
             (JArr (items[i := JObj (AList.delete ''description'' d)])) kv))
        = Inr (r\<lparr>detections := (detections r)[i := (detections r ! i)\<lparr>description := ''''\<rparr>]\<rparr>)"
proof -
  have all: "list_all2 (\<lambda>x y. make_detection lib x = Inr y) items (detections r)"
    using assms(1,2) by (rule detections_of_items)
  have entry: "make_detection lib (JObj d) = Inr (detections r ! i)"
    using assms by (rule detection_of_item)
  have a: "map_of d ''title'' = None \<longrightarrow> title (detections r ! i) = ''''"
    using entry by (auto simp: make_detection_iff)
  have b: "map_of d ''description'' = None \<longrightarrow> description (detections r ! i) = ''''"
    using entry by (auto simp: make_detection_iff)
  have t: "make_detection lib (JObj (AList.delete ''title'' d))
             = Inr ((detections r ! i)\<lparr>title := ''''\<rparr>)"
    using entry by (simp add: make_detection_iff dict_get_delete)
  have de: "make_detection lib (JObj (AList.delete ''description'' d))
             = Inr ((detections r ! i)\<lparr>description := ''''\<rparr>)"
    using entry by (simp add: make_detection_iff dict_get_delete)
  have c: "build_response lib
          (JObj (AList.update ''detections''
             (JArr (items[i := JObj (AList.delete ''title'' d)])) kv))
        = Inr (r\<lparr>detections := (detections r)[i := (detections r ! i)\<lparr>title := ''''\<rparr>]\<rparr>)"
    using assms(1) all t
    by (simp add: build_response_iff dict_get_update collect_eq_Inr list_all2_update_cong)
  have d: "build_response lib
          (JObj (AList.update ''detections''
             (JArr (items[i := JObj (AList.delete ''description'' d)])) kv))
        = Inr (r\<lparr>detections := (detections r)[i := (detections r ! i)\<lparr>description := ''''\<rparr>]\<rparr>)"
    using assms(1) all de
    by (simp add: build_response_iff dict_get_update collect_eq_Inr list_all2_update_cong)
  from a b c d show ?thesis by blast
qed

theorem title_description_default_to_empty_witness:
  "build_response strict_lib
     (JObj [(''detections'', JArr [JObj [(''severity'', JStr ''High'')]])]) =
     Inr \<lparr>overall_risk_score = Finite 0.0, summary = '''',
          detections = [\<lparr>title = '''', description = '''', severity = ''High'',
                         indicators = []\<rparr>],
          recommended_actions = [], queries_to_run = []\<rparr>
   \<and> title (\<lparr>title = '''', description = '''', severity = ''High'', indicators = []\<rparr>) = ''''"
proof -
  let ?kv = "[(''detections'', JArr [JObj [(''severity'', JStr ''High'')]])]"
  let ?r = "\<lparr>overall_risk_score = Finite 0.0, summary = '''',
          detections = [\<lparr>title = '''', description = '''', severity = ''High'',
                         indicators = []\<rparr>],
          recommended_actions = [], queries_to_run = []\<rparr>"
  have b: "build_response strict_lib (JObj ?kv) = Inr ?r"
    by code_simp
  have "map_of ?kv ''detections'' = Some (JArr [JObj [(''severity'', JStr ''High'')]])"
    by simp
  from title_description_default_to_empty [OF b this, of 0 "[(''severity'', JStr ''High'')]"] b
  show ?thesis by simp
qed

end
